theory Spec2Isabelle
  imports Complex_Main
begin

section \<open>aecShaper: boundary shapes of aecSpace\<close>

text \<open>
  The theory embeds \<^verbatim>\<open>src/aecSpace/aecShaper.py\<close>. Python numbers (ints and floats alike)
  are read as real numbers, so every statement below is about exact arithmetic; rounding of
  the floating-point operations is outside this model.
\<close>

subsection \<open>Values\<close>

text \<open>
  Modelled from the spec: the class \<^verbatim>\<open>aecPoint\<close> (module \<^verbatim>\<open>aecSpace.aecPoint\<close>) is imported by
  the source but not part of it. The spec describes it as an (x, y, z) value object with
  equality by value, z defaulting to 0.
\<close>

record aecPoint =
  x :: real
  y :: real
  z :: real

text \<open>The constructor call \<^verbatim>\<open>aecPoint(a, b)\<close>, with z left at its default.\<close>

definition aecPoint_new :: "real \<Rightarrow> real \<Rightarrow> aecPoint" where
  "aecPoint_new a b = \<lparr>x = a, y = b, z = 0\<rparr>"

text \<open>The property \<^verbatim>\<open>point.xy\<close>.\<close>

definition xy :: "aecPoint \<Rightarrow> real \<times> real" where
  "xy p = (x p, y p)"

text \<open>
  What a generator hands back: a list of points, \<^verbatim>\<open>None\<close>, or (on one path of
  \<^verbatim>\<open>makePolygon\<close>) \<^verbatim>\<open>False\<close>.
\<close>

datatype pyresult = PyNone | PyFalse | Points "aecPoint list"

text \<open>
  An optional width or depth argument: \<^verbatim>\<open>None\<close> or a number. The statement
  \<^verbatim>\<open>if not w: w = d\<close> replaces \<^verbatim>\<open>None\<close> and zero, the two falsy values.
\<close>

definition if_not :: "real option \<Rightarrow> real \<Rightarrow> real" where
  "if_not w d = (case w of None \<Rightarrow> d | Some v \<Rightarrow> if v = 0 then d else v)"

subsection \<open>Primitive generators\<close>

definition makeBox :: "aecPoint \<Rightarrow> real \<Rightarrow> real \<Rightarrow> pyresult" where
  "makeBox origin xSize ySize =
     Points [aecPoint_new (x origin) (y origin),
             aecPoint_new (x origin + xSize) (y origin),
             aecPoint_new (x origin + xSize) (y origin + ySize),
             aecPoint_new (x origin) (y origin + ySize)]"

text \<open>The \<^verbatim>\<open>while count < sides\<close> loop of \<^verbatim>\<open>makePolygon\<close>.\<close>

function polygon_loop ::
  "aecPoint \<Rightarrow> real \<Rightarrow> real \<Rightarrow> int \<Rightarrow> int \<Rightarrow> real \<Rightarrow> aecPoint list \<Rightarrow> aecPoint list" where
  "polygon_loop origin radius incAngle sides count angle points =
     (if count < sides
      then polygon_loop origin radius incAngle sides (count + 1) (angle + incAngle)
             (points @ [aecPoint_new (x origin + (radius * cos angle))
                                     (y origin + (radius * sin angle))])
      else points)"
  by pat_completeness auto
termination
  by (relation "measure (\<lambda>(origin, radius, incAngle, sides, count, angle, points).
                   nat (sides - count))") auto

definition makePolygon :: "aecPoint \<Rightarrow> real \<Rightarrow> real \<Rightarrow> pyresult" where
  "makePolygon origin radius0 sides0 =
     (let radius = \<bar>radius0\<bar> in
      if radius = 0 then PyFalse
      else
        let sides1 = \<lfloor>\<bar>sides0\<bar>\<rfloor>;
            sides = (if sides1 < 3 then 3 else sides1);
            angle = pi * 0.5;
            incAngle = (pi * 2) / of_int sides
        in Points (polygon_loop origin radius incAngle sides 0 angle []))"

definition makeCylinder :: "aecPoint \<Rightarrow> real \<Rightarrow> pyresult" where
  "makeCylinder origin radius =
     (let sides = (if radius < 3 then 3 else radius)
      in makePolygon origin radius sides)"

subsection \<open>The geometry library\<close>

text \<open>
  \<^verbatim>\<open>shapely\<close> is an external library. Its geometries are kept as data and its four
  operations used by the source are parameters of the model; \<open>None\<close> stands for a raised
  exception.
\<close>

datatype geometry =
    Polygon (exterior: "(real \<times> real) list") (interiors: "(real \<times> real) list list")
  | MultiPolygon "geometry list"
  | GeometryCollection "geometry list"

record shapely =
  new_Polygon :: "(real \<times> real) list \<Rightarrow> geometry option"
  orient :: "geometry \<Rightarrow> geometry option"
  new_MultiPolygon :: "geometry list \<Rightarrow> geometry option"
  unary_union :: "geometry \<Rightarrow> geometry option"

text \<open>The test \<^verbatim>\<open>type(g) == shapely.polygon.Polygon\<close>.\<close>

fun is_Polygon :: "geometry \<Rightarrow> bool" where
  "is_Polygon (Polygon ext ints) = True"
| "is_Polygon (MultiPolygon gs) = False"
| "is_Polygon (GeometryCollection gs) = False"

subsection \<open>The union of candidate loops\<close>

text \<open>
  The \<^verbatim>\<open>for points in pointSet\<close> loop of \<^verbatim>\<open>__add\<close>: \<open>None\<close> when an exception is raised
  (an entry that is not a list of points, a failing library call, or a result that is not
  a polygon), otherwise the list \<^verbatim>\<open>boundaries\<close>.
\<close>

fun add_boundaries :: "shapely \<Rightarrow> pyresult list \<Rightarrow> geometry list option" where
  "add_boundaries lib [] = Some []"
| "add_boundaries lib (PyNone # rest) = None"
| "add_boundaries lib (PyFalse # rest) = None"
| "add_boundaries lib (Points points # rest) =
     (case new_Polygon lib (map xy points) of
        None \<Rightarrow> None
      | Some p \<Rightarrow>
          (case orient lib p of
             None \<Rightarrow> None
           | Some polygon \<Rightarrow>
               if \<not> is_Polygon polygon then None
               else (case add_boundaries lib rest of
                       None \<Rightarrow> None
                     | Some boundaries \<Rightarrow> Some (polygon # boundaries))))"

definition add :: "shapely \<Rightarrow> pyresult list \<Rightarrow> pyresult" where
  "add lib pointSet =
     (case add_boundaries lib pointSet of
        None \<Rightarrow> PyNone
      | Some boundaries \<Rightarrow>
          (case new_MultiPolygon lib boundaries of
             None \<Rightarrow> PyNone
           | Some multi \<Rightarrow>
               (case unary_union lib multi of
                  None \<Rightarrow> PyNone
                | Some boundary \<Rightarrow>
                    if \<not> is_Polygon boundary then PyNone
                    else Points (map (\<lambda>pnt. aecPoint_new (fst pnt) (snd pnt))
                                     (butlast (exterior boundary))))))"

subsection \<open>Composite builders\<close>

text \<open>
  Each builder is given in two parts: the statements up to the call of \<^verbatim>\<open>__add\<close>, which
  yield the list of candidate loops or \<open>None\<close> for an early \<^verbatim>\<open>return None\<close>, and the
  builder itself, which hands that list to \<open>add\<close>.
\<close>

definition makeCross_arms ::
  "aecPoint \<Rightarrow> real \<Rightarrow> real \<Rightarrow> real option \<Rightarrow> real option \<Rightarrow> real \<Rightarrow> real \<Rightarrow> pyresult list option" where
  "makeCross_arms origin xSize ySize xWidth0 yDepth0 xAxis yAxis =
     (let xWidth = if_not xWidth0 (xSize * 0.5);
          yDepth = if_not yDepth0 (ySize * 0.5);
          xPnt = aecPoint_new (x origin + ((yAxis * xSize) - (xWidth * 0.5))) (y origin);
          yPnt = aecPoint_new (x origin) (y origin + ((xAxis * ySize) - (yDepth * 0.5)));
          armX = makeBox xPnt xWidth ySize;
          armY = makeBox yPnt xSize yDepth
      in Some [armX, armY])"

definition makeCross ::
  "shapely \<Rightarrow> aecPoint \<Rightarrow> real \<Rightarrow> real \<Rightarrow> real option \<Rightarrow> real option \<Rightarrow> real \<Rightarrow> real \<Rightarrow> pyresult" where
  "makeCross lib origin xSize ySize xWidth0 yDepth0 xAxis yAxis =
     (case makeCross_arms origin xSize ySize xWidth0 yDepth0 xAxis yAxis of
        None \<Rightarrow> PyNone
      | Some arms \<Rightarrow> add lib arms)"

definition makeH_arms ::
  "aecPoint \<Rightarrow> real \<Rightarrow> real \<Rightarrow> real option \<Rightarrow> real option \<Rightarrow> real option \<Rightarrow> pyresult list option" where
  "makeH_arms origin xSize ySize xWidth10 xWidth20 yDepth0 =
     (let xWidth1 = if_not xWidth10 (xSize * 0.3);
          xWidth2 = if_not xWidth20 (xSize * 0.3);
          yDepth = if_not yDepth0 (ySize * 0.3)
      in if xWidth1 \<ge> xSize * 0.5 then None
         else if xWidth2 \<ge> xSize * 0.5 then None
         else if yDepth \<ge> ySize then None
         else
           let arm1 = makeBox origin xWidth1 ySize;
               oPnt = aecPoint_new (x origin + (xSize - xWidth2)) (y origin);
               arm2 = makeBox oPnt xWidth2 ySize;
               oPnt' = aecPoint_new (x origin) (y origin + ((ySize * 0.5) - (yDepth * 0.5)));
               arm3 = makeBox oPnt' xSize yDepth
           in Some [arm1, arm2, arm3])"

definition makeH ::
  "shapely \<Rightarrow> aecPoint \<Rightarrow> real \<Rightarrow> real \<Rightarrow> real option \<Rightarrow> real option \<Rightarrow> real option \<Rightarrow> pyresult" where
  "makeH lib origin xSize ySize xWidth10 xWidth20 yDepth0 =
     (case makeH_arms origin xSize ySize xWidth10 xWidth20 yDepth0 of
        None \<Rightarrow> PyNone
      | Some arms \<Rightarrow> add lib arms)"

definition makeL_arms ::
  "aecPoint \<Rightarrow> real \<Rightarrow> real \<Rightarrow> real option \<Rightarrow> real option \<Rightarrow> pyresult list option" where
  "makeL_arms origin xSize ySize xWidth0 yDepth0 =
     (let xWidth = if_not xWidth0 (xSize * 0.5);
          yDepth = if_not yDepth0 (ySize * 0.5)
      in if xWidth \<ge> xSize then None
         else if yDepth \<ge> ySize then None
         else
           let armX = makeBox origin xWidth ySize;
               armY = makeBox origin xSize yDepth
           in Some [armX, armY])"

definition makeL ::
  "shapely \<Rightarrow> aecPoint \<Rightarrow> real \<Rightarrow> real \<Rightarrow> real option \<Rightarrow> real option \<Rightarrow> pyresult" where
  "makeL lib origin xSize ySize xWidth0 yDepth0 =
     (case makeL_arms origin xSize ySize xWidth0 yDepth0 of
        None \<Rightarrow> PyNone
      | Some arms \<Rightarrow> add lib arms)"

definition makeT_arms ::
  "aecPoint \<Rightarrow> real \<Rightarrow> real \<Rightarrow> real option \<Rightarrow> real option \<Rightarrow> pyresult list option" where
  "makeT_arms origin xSize ySize xWidth0 yDepth0 =
     (let xWidth = if_not xWidth0 (xSize * 0.5);
          yDepth = if_not yDepth0 (ySize * 0.5)
      in if xWidth \<ge> xSize then None
         else if yDepth \<ge> ySize then None
         else
           let oPnt = aecPoint_new (x origin) (y origin + (ySize - yDepth));
               arm1 = makeBox oPnt xSize yDepth;
               oPnt' = aecPoint_new (x origin + ((xSize * 0.5) - (xWidth * 0.5))) (y origin);
               arm2 = makeBox oPnt' xWidth ySize
           in Some [arm1, arm2])"

definition makeT ::
  "shapely \<Rightarrow> aecPoint \<Rightarrow> real \<Rightarrow> real \<Rightarrow> real option \<Rightarrow> real option \<Rightarrow> pyresult" where
  "makeT lib origin xSize ySize xWidth0 yDepth0 =
     (case makeT_arms origin xSize ySize xWidth0 yDepth0 of
        None \<Rightarrow> PyNone
      | Some arms \<Rightarrow> add lib arms)"

definition makeU_arms ::
  "shapely \<Rightarrow> aecPoint \<Rightarrow> real \<Rightarrow> real \<Rightarrow> real option \<Rightarrow> real option \<Rightarrow> real option \<Rightarrow> pyresult list option" where
  "makeU_arms lib origin xSize ySize xWidth10 xWidth20 yDepth0 =
     (let xWidth1 = if_not xWidth10 (xSize * 0.3);
          xWidth2 = if_not xWidth20 (xSize * 0.3);
          yDepth = if_not yDepth0 (ySize * 0.3)
      in if xWidth1 \<ge> xSize * 0.5 then None
         else if xWidth2 \<ge> xSize * 0.5 then None
         else if yDepth \<ge> ySize then None
         else
           let pointsL = makeL lib origin xSize ySize (Some xWidth1) (Some yDepth);
               xPoint = aecPoint_new (x origin + (xSize - xWidth2)) (y origin);
               pointsU = makeBox xPoint xWidth2 ySize
           in Some [pointsL, pointsU])"

definition makeU ::
  "shapely \<Rightarrow> aecPoint \<Rightarrow> real \<Rightarrow> real \<Rightarrow> real option \<Rightarrow> real option \<Rightarrow> real option \<Rightarrow> pyresult" where
  "makeU lib origin xSize ySize xWidth10 xWidth20 yDepth0 =
     (case makeU_arms lib origin xSize ySize xWidth10 xWidth20 yDepth0 of
        None \<Rightarrow> PyNone
      | Some arms \<Rightarrow> add lib arms)"

subsection \<open>Properties of a loop\<close>


text \<open>The shoelace formula over the closed loop: each point paired with its successor.\<close>

definition signed_area :: "aecPoint list \<Rightarrow> real" where
  "signed_area ps = (\<Sum>(p, q) \<leftarrow> zip ps (rotate1 ps). x p * y q - x q * y p) / 2"

text \<open>The points of a result; no points when the result is not a list.\<close>

definition the_points :: "pyresult \<Rightarrow> aecPoint list" where
  "the_points r = (case r of Points ps \<Rightarrow> ps | _ \<Rightarrow> [])"

text \<open>
  The regular polygon of the claims: vertex \<open>i\<close> of \<open>n\<close> on the circle of radius \<open>r\<close>
  around \<open>origin\<close>, at angle \<open>pi / 2 + i * (2 * pi / n)\<close>.
\<close>

definition regular_vertex :: "aecPoint \<Rightarrow> real \<Rightarrow> nat \<Rightarrow> nat \<Rightarrow> aecPoint" where
  "regular_vertex origin r n i =
     aecPoint_new (x origin + r * cos (pi / 2 + real i * (2 * pi / real n)))
                  (y origin + r * sin (pi / 2 + real i * (2 * pi / real n)))"

definition regular_polygon :: "aecPoint \<Rightarrow> real \<Rightarrow> nat \<Rightarrow> aecPoint list" where
  "regular_polygon origin r n = map (regular_vertex origin r n) [0..<n]"

text \<open>The side count \<open>max 3 (floor (abs s))\<close> that \<^verbatim>\<open>makePolygon\<close> derives from \<^verbatim>\<open>sides\<close>.\<close>

definition side_count :: "real \<Rightarrow> nat" where
  "side_count s = nat (max 3 \<lfloor>\<bar>s\<bar>\<rfloor>)"

text \<open>A supplied width or depth that reaches or exceeds the bound \<open>b\<close>.\<close>

definition reaches :: "real option \<Rightarrow> real \<Rightarrow> bool" where
  "reaches w b = (case w of None \<Rightarrow> False | Some v \<Rightarrow> v \<ge> b)"

text \<open>A width or depth that is missing or supplied as zero.\<close>

definition unset :: "real option \<Rightarrow> bool" where
  "unset w = (w = None \<or> w = Some 0)"





section \<open>Theorems\<close>

subsection \<open>Helper lemmas\<close>

lemma signed_area_4:
  "signed_area [a, b, c, d] =
     (x a * y b - x b * y a + (x b * y c - x c * y b) + (x c * y d - x d * y c)
        + (x d * y a - x a * y d)) / 2"
  by (simp add: signed_area_def)

lemma polygon_loop_closed:
  "count \<le> sides \<Longrightarrow>
   polygon_loop origin radius incAngle sides count angle points =
     points @ map (\<lambda>i. aecPoint_new (x origin + radius * cos (angle + real i * incAngle))
                                     (y origin + radius * sin (angle + real i * incAngle)))
                  [0..<nat (sides - count)]"
proof (induction origin radius incAngle sides count angle points rule: polygon_loop.induct)
  case (1 origin radius incAngle sides count angle points)
  show ?case
  proof (cases "count < sides")
    case True
    then have n: "nat (sides - count) = Suc (nat (sides - (count + 1)))" by simp
    have "polygon_loop origin radius incAngle sides count angle points =
          polygon_loop origin radius incAngle sides (count + 1) (angle + incAngle)
             (points @ [aecPoint_new (x origin + (radius * cos angle))
                                     (y origin + (radius * sin angle))])"
      using True by simp
    also have "\<dots> = (points @ [aecPoint_new (x origin + (radius * cos angle))
                                     (y origin + (radius * sin angle))]) @
        map (\<lambda>i. aecPoint_new (x origin + radius * cos (angle + incAngle + real i * incAngle))
                                     (y origin + radius * sin (angle + incAngle + real i * incAngle)))
                  [0..<nat (sides - (count + 1))]"
      using "1.IH"[OF True] True by simp
    finally show ?thesis
      unfolding n
      by (simp add: upt_conv_Cons map_Suc_upt[symmetric] algebra_simps del: upt_Suc polygon_loop.simps)
  next
    case False
    with "1.prems" show ?thesis by simp
  qed
qed


lemma makePolygon_regular:
  assumes "radius \<noteq> 0"
  shows "makePolygon origin radius sides =
           Points (regular_polygon origin \<bar>radius\<bar> (side_count sides))"
proof -
  let ?n = "max 3 \<lfloor>\<bar>sides\<bar>\<rfloor>"
  have n: "(if \<lfloor>\<bar>sides\<bar>\<rfloor> < 3 then 3 else \<lfloor>\<bar>sides\<bar>\<rfloor>) = ?n" by simp
  have pos: "0 \<le> ?n" by simp
  have r: "real (nat ?n) = real_of_int ?n" using pos by simp
  have "makePolygon origin radius sides =
          Points (polygon_loop origin \<bar>radius\<bar> ((pi * 2) / of_int ?n) ?n 0 (pi * 0.5) [])"
    using assms unfolding makePolygon_def Let_def n by simp
  also have "polygon_loop origin \<bar>radius\<bar> ((pi * 2) / of_int ?n) ?n 0 (pi * 0.5) [] =
          regular_polygon origin \<bar>radius\<bar> (side_count sides)"
    unfolding polygon_loop_closed [OF pos] regular_polygon_def regular_vertex_def
      side_count_def r
    by (simp add: mult.commute)
  finally show ?thesis .
qed

lemma side_count_3: "side_count 3 = 3"
  by (simp add: side_count_def)

lemma length_regular_polygon: "length (regular_polygon origin r n) = n"
  by (simp add: regular_polygon_def)

lemma regular_polygon_3:
  "regular_polygon origin r 3 =
     [regular_vertex origin r 3 0, regular_vertex origin r 3 1, regular_vertex origin r 3 2]"
proof -
  have "[0..<3] = [0, 1, 2]" by code_simp
  then show ?thesis by (simp add: regular_polygon_def)
qed

lemma if_not_None: "if_not None d = d"
  by (simp add: if_not_def)

lemma if_not_zero: "if_not (Some 0) d = d"
  by (simp add: if_not_def)

lemma if_not_nonzero: "v \<noteq> 0 \<Longrightarrow> if_not (Some v) d = v"
  by (simp add: if_not_def)

lemma if_not_idem: "if_not (Some (if_not w d)) d = if_not w d"
  by (simp add: if_not_def split: option.splits)

lemma reaches_full: "reaches w b \<Longrightarrow> 0 \<le> c \<Longrightarrow> c \<le> 1 \<Longrightarrow> if_not w (b * c) \<ge> b"
proof (cases w)
  case None
  assume "reaches w b" with None show ?thesis by (simp add: reaches_def)
next
  case (Some v)
  assume r: "reaches w b" and c: "0 \<le> c" "c \<le> 1"
  show ?thesis
  proof (cases "v = 0")
    case True
    with r Some have "b \<le> 0" by (simp add: reaches_def)
    then have "b * 1 \<le> b * c" using c by (intro mult_left_mono_neg) auto
    with True Some show ?thesis by (simp add: if_not_def)
  next
    case False
    with r Some show ?thesis by (simp add: if_not_def reaches_def)
  qed
qed

lemma reaches_half: "reaches w (b * 0.5) \<Longrightarrow> if_not w (b * 0.3) \<ge> b * 0.5"
proof (cases w)
  case None
  assume "reaches w (b * 0.5)" with None show ?thesis by (simp add: reaches_def)
next
  case (Some v)
  assume r: "reaches w (b * 0.5)"
  show ?thesis
  proof (cases "v = 0")
    case True
    with r Some have "b \<le> 0" by (simp add: reaches_def)
    with True Some show ?thesis by (simp add: if_not_def)
  next
    case False
    with r Some show ?thesis by (simp add: if_not_def reaches_def)
  qed
qed

lemma makeL_arms_None:
  "makeL_arms origin xSize ySize xWidth yDepth = None \<longleftrightarrow>
     if_not xWidth (xSize * 0.5) \<ge> xSize \<or> if_not yDepth (ySize * 0.5) \<ge> ySize"
  by (simp add: makeL_arms_def Let_def)

lemma makeT_arms_None:
  "makeT_arms origin xSize ySize xWidth yDepth = None \<longleftrightarrow>
     if_not xWidth (xSize * 0.5) \<ge> xSize \<or> if_not yDepth (ySize * 0.5) \<ge> ySize"
  by (simp add: makeT_arms_def Let_def)

lemma makeH_arms_None:
  "makeH_arms origin xSize ySize xWidth1 xWidth2 yDepth = None \<longleftrightarrow>
     if_not xWidth1 (xSize * 0.3) \<ge> xSize * 0.5 \<or> if_not xWidth2 (xSize * 0.3) \<ge> xSize * 0.5
     \<or> if_not yDepth (ySize * 0.3) \<ge> ySize"
  by (simp add: makeH_arms_def Let_def)

lemma makeU_arms_None:
  "makeU_arms lib origin xSize ySize xWidth1 xWidth2 yDepth = None \<longleftrightarrow>
     if_not xWidth1 (xSize * 0.3) \<ge> xSize * 0.5 \<or> if_not xWidth2 (xSize * 0.3) \<ge> xSize * 0.5
     \<or> if_not yDepth (ySize * 0.3) \<ge> ySize"
  by (simp add: makeU_arms_def Let_def)

lemma if_not_unset: "unset w \<Longrightarrow> if_not w d = if_not (Some d) d"
  by (auto simp add: unset_def if_not_def)

lemma add_Points:
  assumes "add lib pointSet = Points ps"
  shows "\<exists>boundaries multi ext ints.
           add_boundaries lib pointSet = Some boundaries
         \<and> new_MultiPolygon lib boundaries = Some multi
         \<and> unary_union lib multi = Some (Polygon ext ints)
         \<and> ps = map (\<lambda>pnt. aecPoint_new (fst pnt) (snd pnt)) (butlast ext)"
proof -
  from assms obtain boundaries where b: "add_boundaries lib pointSet = Some boundaries"
    by (auto simp add: add_def split: option.splits)
  from assms b obtain multi where m: "new_MultiPolygon lib boundaries = Some multi"
    by (auto simp add: add_def split: option.splits)
  from assms b m obtain boundary where u: "unary_union lib multi = Some boundary"
    by (auto simp add: add_def split: option.splits)
  from assms b m u have p: "is_Polygon boundary"
    and r: "ps = map (\<lambda>pnt. aecPoint_new (fst pnt) (snd pnt)) (butlast (exterior boundary))"
    by (auto simp add: add_def split: if_splits)
  from p obtain ext ints where "boundary = Polygon ext ints"
    by (cases boundary) auto
  with b m u r show ?thesis by auto
qed

lemma add_not_False: "add lib pointSet \<noteq> PyFalse"
  by (simp add: add_def split: option.splits)

lemma zip_rotate1_map_upt:
  "0 < n \<Longrightarrow> zip (map f [0..<n]) (rotate1 (map f [0..<n])) =
     map (\<lambda>i. (f i, f (Suc i mod n))) [0..<n]"
  by (rule nth_equalityI) (simp_all add: nth_rotate1)

lemma signed_area_map_upt:
  assumes "0 < n"
  shows "signed_area (map f [0..<n]) =
     (\<Sum>i<n. x (f i) * y (f (Suc i mod n)) - x (f (Suc i mod n)) * y (f i)) / 2"
proof -
  have "(\<Sum>(p, q) \<leftarrow> map (\<lambda>i. (f i, f (Suc i mod n))) [0..<n]. x p * y q - x q * y p) =
        (\<Sum>i<n. x (f i) * y (f (Suc i mod n)) - x (f (Suc i mod n)) * y (f i))"
    by (simp add: comp_def interv_sum_list_conv_sum_set_nat atLeast0LessThan)
  then show ?thesis
    unfolding signed_area_def zip_rotate1_map_upt [OF assms] by simp
qed

lemma regular_vertex_period:
  assumes "0 < n"
  shows "regular_vertex origin r n n = regular_vertex origin r n 0"
proof -
  have e: "real n * (2 * pi / real n) = 2 * pi" using assms by simp
  have c: "cos (pi / 2 + real n * (2 * pi / real n)) = cos (pi / 2)"
    unfolding e by (rule cos_periodic)
  have s: "sin (pi / 2 + real n * (2 * pi / real n)) = sin (pi / 2)"
    unfolding e by (rule sin_periodic)
  show ?thesis unfolding regular_vertex_def c s by simp
qed

lemma regular_vertex_Suc_mod:
  assumes "i < n"
  shows "regular_vertex origin r n (Suc i mod n) = regular_vertex origin r n (Suc i)"
proof (cases "Suc i = n")
  case True
  then show ?thesis using assms regular_vertex_period [of n origin r] by simp
next
  case False
  with assms show ?thesis by simp
qed

lemma x_regular_vertex:
  "x (regular_vertex origin r n i) = x origin + r * cos (pi / 2 + real i * (2 * pi / real n))"
  by (simp add: regular_vertex_def aecPoint_new_def)

lemma y_regular_vertex:
  "y (regular_vertex origin r n i) = y origin + r * sin (pi / 2 + real i * (2 * pi / real n))"
  by (simp add: regular_vertex_def aecPoint_new_def)

lemma shoelace_term:
  fixes a b ox oy r :: real
  shows "(ox + r * cos a) * (oy + r * sin b) - (ox + r * cos b) * (oy + r * sin a) =
         r * r * sin (b - a) + (ox * r * sin b - ox * r * sin a) - (oy * r * cos b - oy * r * cos a)"
  by (simp add: sin_diff algebra_simps)

lemma sum_const_telescope:
  fixes F G :: "nat \<Rightarrow> real"
  shows "(\<Sum>i<n. c + (F (Suc i) - F i) - (G (Suc i) - G i)) =
         real n * c + (F n - F 0) - (G n - G 0)"
  by (induction n) (simp_all add: algebra_simps)

lemma signed_area_regular_polygon:
  assumes "0 < n"
  shows "signed_area (regular_polygon origin r n) = real n * (r * r * sin (2 * pi / real n)) / 2"
proof -
  let ?a = "\<lambda>i. pi / 2 + real i * (2 * pi / real n)"
  let ?v = "regular_vertex origin r n"
  have gen: "pi / 2 + real (Suc i) * d - (pi / 2 + real i * d) = d" for i and d :: real
    by (simp add: algebra_simps)
  have step: "?a (Suc i) - ?a i = 2 * pi / real n" for i
    by (rule gen)
  have tm: "x (?v i) * y (?v (Suc i mod n)) - x (?v (Suc i mod n)) * y (?v i) =
        r * r * sin (2 * pi / real n)
        + (x origin * r * sin (?a (Suc i)) - x origin * r * sin (?a i))
        - (y origin * r * cos (?a (Suc i)) - y origin * r * cos (?a i))" if "i < n" for i
    unfolding regular_vertex_Suc_mod [OF that] x_regular_vertex y_regular_vertex shoelace_term step ..
  have e: "real n * (2 * pi / real n) = 2 * pi" using assms by simp
  have per: "sin (?a n) = sin (?a 0)" "cos (?a n) = cos (?a 0)"
    unfolding e by (simp_all only: sin_periodic cos_periodic of_nat_0 mult_zero_left add_0_right)
  have "(\<Sum>i<n. x (?v i) * y (?v (Suc i mod n)) - x (?v (Suc i mod n)) * y (?v i)) =
        (\<Sum>i<n. r * r * sin (2 * pi / real n)
        + (x origin * r * sin (?a (Suc i)) - x origin * r * sin (?a i))
        - (y origin * r * cos (?a (Suc i)) - y origin * r * cos (?a i)))"
    by (rule sum.cong) (simp_all only: tm lessThan_iff)
  also have "\<dots> = real n * (r * r * sin (2 * pi / real n))
        + (x origin * r * sin (?a n) - x origin * r * sin (?a 0))
        - (y origin * r * cos (?a n) - y origin * r * cos (?a 0))"
    by (rule sum_const_telescope [of "r * r * sin (2 * pi / real n)"
          "\<lambda>i. x origin * r * sin (?a i)" "\<lambda>i. y origin * r * cos (?a i)" n])
  also have "\<dots> = real n * (r * r * sin (2 * pi / real n))"
    unfolding per by simp
  finally show ?thesis
    unfolding regular_polygon_def signed_area_map_upt [OF assms] by simp
qed

lemma signed_area_regular_polygon_pos:
  assumes "3 \<le> n" and "0 < r"
  shows "0 < signed_area (regular_polygon origin r n)"
proof -
  have n: "0 < n" using assms by simp
  have "2 * pi / real n < pi"
  proof -
    have "2 * pi < pi * real n" using assms pi_gt_zero by (simp add: mult.commute)
    then show ?thesis using n by (simp add: field_simps)
  qed
  moreover have "0 < 2 * pi / real n" using n by simp
  ultimately have "0 < sin (2 * pi / real n)" by (rule sin_gt_zero [rotated])
  then show ?thesis
    unfolding signed_area_regular_polygon [OF n] using assms n by simp
qed




lemma hd_regular_polygon:
  assumes "0 < n"
  shows "hd (regular_polygon origin r n) = aecPoint_new (x origin) (y origin + r)"
proof -
  have "[0..<n] = 0 # [1..<n]" using assms by (simp add: upt_conv_Cons)
  then show ?thesis by (simp add: regular_polygon_def regular_vertex_def)
qed

























text \<open>
  The candidate loops that \<open>makeCross\<close> with sizes 10 and default widths hands to \<open>add\<close>: the
  vertical arm 5 by 10 at \<open>x = 2.5\<close> and the horizontal arm 10 by 5 at \<open>y = 2.5\<close>.
\<close>

lemma makeCross_default_arms:
  "makeCross_arms \<lparr>x = 0, y = 0, z = 0\<rparr> 10 10 None None 0.5 0.5 =
     Some [makeBox \<lparr>x = 2.5, y = 0, z = 0\<rparr> 5 10, makeBox \<lparr>x = 0, y = 2.5, z = 0\<rparr> 10 5]"
  by (simp add: makeCross_arms_def if_not_def makeBox_def aecPoint_new_def Let_def)

subsection \<open>makeBox\<close>

text \<open>
  Claim C9. For every origin and all positive \<open>xSize\<close> and \<open>ySize\<close>, \<open>makeBox\<close> returns exactly
  the four points (x, y), (x + xSize, y), (x + xSize, y + ySize), (x, y + ySize), in that
  order starting at the origin; their shoelace area is \<open>xSize * ySize\<close>, which is positive,
  so the order is counter-clockwise.
\<close>

theorem makeBox_rectangle:
  assumes "0 < xSize" and "0 < ySize"
  shows "makeBox origin xSize ySize =
           Points [aecPoint_new (x origin) (y origin),
                   aecPoint_new (x origin + xSize) (y origin),
                   aecPoint_new (x origin + xSize) (y origin + ySize),
                   aecPoint_new (x origin) (y origin + ySize)]
         \<and> length (the_points (makeBox origin xSize ySize)) = 4
         \<and> hd (the_points (makeBox origin xSize ySize)) = aecPoint_new (x origin) (y origin)
         \<and> signed_area (the_points (makeBox origin xSize ySize)) = xSize * ySize
         \<and> 0 < signed_area (the_points (makeBox origin xSize ySize))"
proof -
  have area: "signed_area (the_points (makeBox origin xSize ySize)) = xSize * ySize"
    by (simp add: makeBox_def the_points_def signed_area_4 aecPoint_new_def algebra_simps)
  moreover have "0 < xSize * ySize" using assms by simp
  ultimately show ?thesis
    by (simp add: makeBox_def the_points_def)
qed

theorem makeBox_rectangle_witness:
  "(0::real) < 3 \<and> (0::real) < 4 \<and>
   makeBox \<lparr>x = 1, y = 2, z = 0\<rparr> 3 4 =
     Points [\<lparr>x = 1, y = 2, z = 0\<rparr>, \<lparr>x = 4, y = 2, z = 0\<rparr>,
             \<lparr>x = 4, y = 6, z = 0\<rparr>, \<lparr>x = 1, y = 6, z = 0\<rparr>]
   \<and> signed_area (the_points (makeBox \<lparr>x = 1, y = 2, z = 0\<rparr> 3 4)) = 12"
proof -
  have h3: "(0::real) < 3" and h4: "(0::real) < 4" by simp_all
  note r = makeBox_rectangle [OF h3 h4, of "\<lparr>x = 1, y = 2, z = 0\<rparr>"]
  have "makeBox \<lparr>x = 1, y = 2, z = 0\<rparr> 3 4 =
     Points [\<lparr>x = 1, y = 2, z = 0\<rparr>, \<lparr>x = 4, y = 2, z = 0\<rparr>,
             \<lparr>x = 4, y = 6, z = 0\<rparr>, \<lparr>x = 1, y = 6, z = 0\<rparr>]"
    using r [THEN conjunct1] by (simp add: aecPoint_new_def)
  moreover have "signed_area (the_points (makeBox \<lparr>x = 1, y = 2, z = 0\<rparr> 3 4)) = 12"
    using r [THEN conjunct2, THEN conjunct2, THEN conjunct2, THEN conjunct1] by simp
  ultimately show ?thesis by simp
qed

subsection \<open>makePolygon with radius zero\<close>

text \<open>
  Claim C4. The claim is that \<open>makePolygon origin 0 n\<close> fails with the same absent value as
  every other failure. The source returns \<^verbatim>\<open>False\<close> there, which is not \<^verbatim>\<open>None\<close>.
\<close>

theorem makePolygon_zero_radius_False:
  "makePolygon origin 0 sides = PyFalse \<and> makePolygon origin 0 sides \<noteq> PyNone"
  by (simp add: makePolygon_def)

subsection \<open>makeCylinder\<close>

text \<open>
  Claim C10. For every negative radius, \<open>makeCylinder\<close> returns the three-sided regular
  polygon of circumradius \<open>abs radius\<close> around the origin: the comparison \<^verbatim>\<open>radius < 3\<close> is made
  on the signed radius, so the side count is 3 however large \<open>abs radius\<close> is.
\<close>

theorem makeCylinder_negative_radius:
  assumes "radius < 0"
  shows "makeCylinder origin radius = makePolygon origin radius 3
         \<and> makeCylinder origin radius =
             Points [regular_vertex origin (abs radius) 3 0,
                     regular_vertex origin (abs radius) 3 1,
                     regular_vertex origin (abs radius) 3 2]
         \<and> length (the_points (makeCylinder origin radius)) = 3"
proof -
  have c: "makeCylinder origin radius = makePolygon origin radius 3"
    using assms by (simp add: makeCylinder_def)
  have "radius \<noteq> 0" using assms by simp
  then have "makePolygon origin radius 3 = Points (regular_polygon origin (abs radius) 3)"
    using makePolygon_regular [of radius origin 3] by (simp add: side_count_3)
  with c show ?thesis by (simp add: regular_polygon_3 the_points_def)
qed

theorem makeCylinder_negative_radius_witness:
  "(- 5 :: real) < 0 \<and>
   (makeCylinder \<lparr>x = 0, y = 0, z = 0\<rparr> (- 5) = makePolygon \<lparr>x = 0, y = 0, z = 0\<rparr> (- 5) 3
    \<and> makeCylinder \<lparr>x = 0, y = 0, z = 0\<rparr> (- 5) =
        Points [regular_vertex \<lparr>x = 0, y = 0, z = 0\<rparr> (abs (- 5)) 3 0,
                regular_vertex \<lparr>x = 0, y = 0, z = 0\<rparr> (abs (- 5)) 3 1,
                regular_vertex \<lparr>x = 0, y = 0, z = 0\<rparr> (abs (- 5)) 3 2]
    \<and> length (the_points (makeCylinder \<lparr>x = 0, y = 0, z = 0\<rparr> (- 5))) = 3)"
proof -
  have h: "(- 5 :: real) < 0" by simp
  show ?thesis
    by (rule conjI [OF h makeCylinder_negative_radius [OF h]])
qed

text \<open>
  Claim C7 says the polygon of \<open>makeCylinder origin r\<close> has exactly \<open>max 3 r\<close> sides. At
  \<open>r = 7 / 2\<close> it has 3 sides, and \<open>max 3 (7 / 2)\<close> is not 3: \<^verbatim>\<open>int(abs(sides))\<close> truncates.
\<close>

theorem makeCylinder_sides_counterexample:
  "length (the_points (makeCylinder \<lparr>x = 0, y = 0, z = 0\<rparr> (7 / 2))) = 3
   \<and> real (length (the_points (makeCylinder \<lparr>x = 0, y = 0, z = 0\<rparr> (7 / 2))))
       \<noteq> max 3 (7 / 2)"
proof -
  have "makeCylinder \<lparr>x = 0, y = 0, z = 0\<rparr> (7 / 2) =
          makePolygon \<lparr>x = 0, y = 0, z = 0\<rparr> (7 / 2) (7 / 2)"
    by (simp add: makeCylinder_def)
  moreover have "side_count (7 / 2) = 3"
    by (simp add: side_count_def)
  ultimately have "length (the_points (makeCylinder \<lparr>x = 0, y = 0, z = 0\<rparr> (7 / 2))) = 3"
    by (simp add: makePolygon_regular the_points_def length_regular_polygon)
  then show ?thesis by simp
qed

text \<open>
  Claim C7, amended. For every nonzero radius, \<open>makeCylinder\<close> returns the regular polygon with
  \<open>max 3 (floor radius)\<close> sides: \<open>floor radius\<close> sides when \<open>radius \<ge> 3\<close>, and 3 sides otherwise.
\<close>

theorem makeCylinder_sides:
  assumes "radius \<noteq> 0"
  shows "makeCylinder origin radius =
           Points (regular_polygon origin (abs radius) (nat (max 3 \<lfloor>radius\<rfloor>)))
         \<and> length (the_points (makeCylinder origin radius)) = nat (max 3 \<lfloor>radius\<rfloor>)
         \<and> (3 \<le> radius \<longrightarrow> length (the_points (makeCylinder origin radius)) = nat \<lfloor>radius\<rfloor>)
         \<and> (radius < 3 \<longrightarrow> length (the_points (makeCylinder origin radius)) = 3)"
proof -
  have sc: "side_count (if radius < 3 then 3 else radius) = nat (max 3 \<lfloor>radius\<rfloor>)"
  proof (cases "radius < 3")
    case True
    then have "\<lfloor>radius\<rfloor> < 3" by linarith
    with True show ?thesis by (simp add: side_count_3)
  next
    case False
    then have "3 \<le> \<lfloor>radius\<rfloor>" by linarith
    with False show ?thesis by (simp add: side_count_def)
  qed
  have eq: "makeCylinder origin radius =
          Points (regular_polygon origin (abs radius) (nat (max 3 \<lfloor>radius\<rfloor>)))"
    unfolding makeCylinder_def Let_def makePolygon_regular [OF assms] sc ..
  have big: "3 \<le> radius \<Longrightarrow> max 3 \<lfloor>radius\<rfloor> = \<lfloor>radius\<rfloor>" by linarith
  have small: "radius < 3 \<Longrightarrow> max 3 \<lfloor>radius\<rfloor> = 3" by linarith
  show ?thesis
    using big small by (auto simp add: eq the_points_def length_regular_polygon)
qed

theorem makeCylinder_sides_witness:
  "(5 :: real) \<noteq> 0 \<and>
   length (the_points (makeCylinder \<lparr>x = 0, y = 0, z = 0\<rparr> 5)) = 5"
proof -
  have h: "(5 :: real) \<noteq> 0" by simp
  have "length (the_points (makeCylinder \<lparr>x = 0, y = 0, z = 0\<rparr> 5)) = nat (max 3 \<lfloor>5::real\<rfloor>)"
    by (rule makeCylinder_sides [OF h, THEN conjunct2, THEN conjunct1])
  then show ?thesis by simp
qed

subsection \<open>Validation in the composite builders\<close>

text \<open>
  Claim C5. When a supplied width or depth reaches or exceeds its bound (\<open>makeL\<close> and \<open>makeT\<close>:
  \<open>xWidth \<ge> xSize\<close> or \<open>yDepth \<ge> ySize\<close>; \<open>makeH\<close> and \<open>makeU\<close>: \<open>xWidth1 \<ge> 0.5 * xSize\<close> or
  \<open>xWidth2 \<ge> 0.5 * xSize\<close> or \<open>yDepth \<ge> ySize\<close>), the builder returns \<^verbatim>\<open>None\<close> before any candidate
  loop is built: no list reaches \<open>add\<close>, and the result is \<^verbatim>\<open>None\<close> whatever the library would do.
\<close>

theorem composite_bound_fails:
  "(reaches xWidth xSize \<or> reaches yDepth ySize \<longrightarrow>
      makeL_arms origin xSize ySize xWidth yDepth = None
      \<and> makeL lib origin xSize ySize xWidth yDepth = PyNone
      \<and> makeT_arms origin xSize ySize xWidth yDepth = None
      \<and> makeT lib origin xSize ySize xWidth yDepth = PyNone)
   \<and> (reaches xWidth1 (xSize * 0.5) \<or> reaches xWidth2 (xSize * 0.5) \<or> reaches yDepth ySize \<longrightarrow>
      makeH_arms origin xSize ySize xWidth1 xWidth2 yDepth = None
      \<and> makeH lib origin xSize ySize xWidth1 xWidth2 yDepth = PyNone
      \<and> makeU_arms lib origin xSize ySize xWidth1 xWidth2 yDepth = None
      \<and> makeU lib origin xSize ySize xWidth1 xWidth2 yDepth = PyNone)"
proof (intro conjI impI)
  assume a: "reaches xWidth xSize \<or> reaches yDepth ySize"
  have w: "reaches xWidth xSize \<Longrightarrow> if_not xWidth (xSize * 0.5) \<ge> xSize"
    by (rule reaches_full) simp_all
  have d: "reaches yDepth ySize \<Longrightarrow> if_not yDepth (ySize * 0.5) \<ge> ySize"
    by (rule reaches_full) simp_all
  show l: "makeL_arms origin xSize ySize xWidth yDepth = None"
    using a w d unfolding makeL_arms_None by blast
  show "makeL lib origin xSize ySize xWidth yDepth = PyNone"
    by (simp add: makeL_def l)
  show t: "makeT_arms origin xSize ySize xWidth yDepth = None"
    using a w d unfolding makeT_arms_None by blast
  show "makeT lib origin xSize ySize xWidth yDepth = PyNone"
    by (simp add: makeT_def t)
next
  assume a: "reaches xWidth1 (xSize * 0.5) \<or> reaches xWidth2 (xSize * 0.5) \<or> reaches yDepth ySize"
  have d: "reaches yDepth ySize \<Longrightarrow> if_not yDepth (ySize * 0.3) \<ge> ySize"
    by (rule reaches_full) simp_all
  show h: "makeH_arms origin xSize ySize xWidth1 xWidth2 yDepth = None"
    using a d reaches_half [of xWidth1 xSize] reaches_half [of xWidth2 xSize]
    unfolding makeH_arms_None by blast
  show "makeH lib origin xSize ySize xWidth1 xWidth2 yDepth = PyNone"
    by (simp add: makeH_def h)
  show u: "makeU_arms lib origin xSize ySize xWidth1 xWidth2 yDepth = None"
    using a d reaches_half [of xWidth1 xSize] reaches_half [of xWidth2 xSize]
    unfolding makeU_arms_None by blast
  show "makeU lib origin xSize ySize xWidth1 xWidth2 yDepth = PyNone"
    by (simp add: makeU_def u)
qed

theorem composite_bound_fails_witness:
  "\<forall>lib.
     (reaches (Some 10) 10 \<or> reaches None 10)
     \<and> makeL lib \<lparr>x = 0, y = 0, z = 0\<rparr> 10 10 (Some 10) None = PyNone
     \<and> makeT lib \<lparr>x = 0, y = 0, z = 0\<rparr> 10 10 (Some 10) None = PyNone
     \<and> (reaches (Some 5) (10 * 0.5) \<or> reaches None (10 * 0.5) \<or> reaches None 10)
     \<and> makeH lib \<lparr>x = 0, y = 0, z = 0\<rparr> 10 10 (Some 5) None None = PyNone
     \<and> makeU lib \<lparr>x = 0, y = 0, z = 0\<rparr> 10 10 (Some 5) None None = PyNone"
proof
  fix lib
  have h1: "reaches (Some 10) 10 \<or> reaches None 10"
    by (simp add: reaches_def)
  have h2: "reaches (Some 5) (10 * 0.5) \<or> reaches None (10 * 0.5) \<or> reaches None 10"
    by (simp add: reaches_def)
  note t = composite_bound_fails [of "Some 10" 10 None 10 "\<lparr>x = 0, y = 0, z = 0\<rparr>" lib
      "Some 5" None]
  from t [THEN conjunct1, THEN mp, OF h1] t [THEN conjunct2, THEN mp, OF h2] h1 h2
  show "(reaches (Some 10) 10 \<or> reaches None 10)
     \<and> makeL lib \<lparr>x = 0, y = 0, z = 0\<rparr> 10 10 (Some 10) None = PyNone
     \<and> makeT lib \<lparr>x = 0, y = 0, z = 0\<rparr> 10 10 (Some 10) None = PyNone
     \<and> (reaches (Some 5) (10 * 0.5) \<or> reaches None (10 * 0.5) \<or> reaches None 10)
     \<and> makeH lib \<lparr>x = 0, y = 0, z = 0\<rparr> 10 10 (Some 5) None None = PyNone
     \<and> makeU lib \<lparr>x = 0, y = 0, z = 0\<rparr> 10 10 (Some 5) None None = PyNone"
    by blast
qed

subsection \<open>Defaults of the composite builders\<close>

text \<open>
  Claim C6 says a width or depth supplied as a non-positive value is replaced by its default.
  A negative width is not: \<open>makeL\<close> with \<open>xWidth = - 1\<close> builds its vertical arm with width \<open>- 1\<close>,
  where the default would be 5.
\<close>

theorem negative_width_counterexample:
  "makeL_arms \<lparr>x = 0, y = 0, z = 0\<rparr> 10 10 (Some (- 1)) None =
     Some [makeBox \<lparr>x = 0, y = 0, z = 0\<rparr> (- 1) 10, makeBox \<lparr>x = 0, y = 0, z = 0\<rparr> 10 5]
   \<and> makeL_arms \<lparr>x = 0, y = 0, z = 0\<rparr> 10 10 None None =
     Some [makeBox \<lparr>x = 0, y = 0, z = 0\<rparr> 5 10, makeBox \<lparr>x = 0, y = 0, z = 0\<rparr> 10 5]
   \<and> makeL_arms \<lparr>x = 0, y = 0, z = 0\<rparr> 10 10 (Some (- 1)) None
       \<noteq> makeL_arms \<lparr>x = 0, y = 0, z = 0\<rparr> 10 10 None None"
  by (simp add: makeL_arms_def if_not_def makeBox_def aecPoint_new_def Let_def)

text \<open>
  Claim C6, amended. For every composite builder and every width or depth parameter that is
  missing or supplied as zero, the builder behaves exactly as if the documented default
  fraction of the corresponding extent had been supplied; the substitution comes before
  validation and construction.
\<close>

theorem falsy_width_defaults:
  assumes "unset w"
  shows "makeCross lib origin xSize ySize w yDepth xAxis yAxis =
           makeCross lib origin xSize ySize (Some (xSize * 0.5)) yDepth xAxis yAxis
       \<and> makeCross lib origin xSize ySize xWidth w xAxis yAxis =
           makeCross lib origin xSize ySize xWidth (Some (ySize * 0.5)) xAxis yAxis
       \<and> makeH lib origin xSize ySize w xWidth2 yDepth =
           makeH lib origin xSize ySize (Some (xSize * 0.3)) xWidth2 yDepth
       \<and> makeH lib origin xSize ySize xWidth1 w yDepth =
           makeH lib origin xSize ySize xWidth1 (Some (xSize * 0.3)) yDepth
       \<and> makeH lib origin xSize ySize xWidth1 xWidth2 w =
           makeH lib origin xSize ySize xWidth1 xWidth2 (Some (ySize * 0.3))
       \<and> makeL lib origin xSize ySize w yDepth =
           makeL lib origin xSize ySize (Some (xSize * 0.5)) yDepth
       \<and> makeL lib origin xSize ySize xWidth w =
           makeL lib origin xSize ySize xWidth (Some (ySize * 0.5))
       \<and> makeT lib origin xSize ySize w yDepth =
           makeT lib origin xSize ySize (Some (xSize * 0.5)) yDepth
       \<and> makeT lib origin xSize ySize xWidth w =
           makeT lib origin xSize ySize xWidth (Some (ySize * 0.5))
       \<and> makeU lib origin xSize ySize w xWidth2 yDepth =
           makeU lib origin xSize ySize (Some (xSize * 0.3)) xWidth2 yDepth
       \<and> makeU lib origin xSize ySize xWidth1 w yDepth =
           makeU lib origin xSize ySize xWidth1 (Some (xSize * 0.3)) yDepth
       \<and> makeU lib origin xSize ySize xWidth1 xWidth2 w =
           makeU lib origin xSize ySize xWidth1 xWidth2 (Some (ySize * 0.3))"
  unfolding makeCross_def makeCross_arms_def makeH_def makeH_arms_def makeL_def makeL_arms_def
    makeT_def makeT_arms_def makeU_def makeU_arms_def if_not_unset [OF assms]
  by (intro conjI refl)

theorem falsy_width_defaults_witness:
  "unset (Some 0) \<and>
   (\<forall>lib. makeL lib \<lparr>x = 0, y = 0, z = 0\<rparr> 10 10 (Some 0) None =
            makeL lib \<lparr>x = 0, y = 0, z = 0\<rparr> 10 10 (Some (10 * 0.5)) None)"
proof -
  have h: "unset (Some 0)" by (simp add: unset_def)
  have "makeL lib \<lparr>x = 0, y = 0, z = 0\<rparr> 10 10 (Some 0) None =
            makeL lib \<lparr>x = 0, y = 0, z = 0\<rparr> 10 10 (Some (10 * 0.5)) None" for lib
    using falsy_width_defaults [OF h, of lib "\<lparr>x = 0, y = 0, z = 0\<rparr>" 10 10 None]
    by blast
  with h show ?thesis by blast
qed

subsection \<open>The union of candidate loops\<close>

text \<open>
  Claim C2. The claim is that candidate loops whose union is not a single connected polygon
  (several pieces, or a union that has collapsed to nothing) give \<^verbatim>\<open>None\<close>. The source tests
  only the type of the union. When the library answers with an empty geometry of type
  polygon, the test passes and \<open>add\<close> returns the empty list, which is not \<^verbatim>\<open>None\<close>.
\<close>

theorem add_empty_polygon_not_None:
  assumes "add_boundaries lib pointSet = Some boundaries"
    and "new_MultiPolygon lib boundaries = Some multi"
    and "unary_union lib multi = Some (Polygon [] ints)"
  shows "add lib pointSet = Points [] \<and> add lib pointSet \<noteq> PyNone"
  using assms by (simp add: add_def)

theorem add_empty_polygon_not_None_witness:
  "\<exists>lib boundaries multi ints.
     add_boundaries lib
       [makeBox \<lparr>x = 0, y = 0, z = 0\<rparr> 0 0, makeBox \<lparr>x = 0, y = 0, z = 0\<rparr> 0 0] = Some boundaries
     \<and> new_MultiPolygon lib boundaries = Some multi
     \<and> unary_union lib multi = Some (Polygon [] ints)
     \<and> add lib
       [makeBox \<lparr>x = 0, y = 0, z = 0\<rparr> 0 0, makeBox \<lparr>x = 0, y = 0, z = 0\<rparr> 0 0] = Points []
     \<and> add lib
       [makeBox \<lparr>x = 0, y = 0, z = 0\<rparr> 0 0, makeBox \<lparr>x = 0, y = 0, z = 0\<rparr> 0 0] \<noteq> PyNone"
proof -
  let ?lib = "\<lparr>new_Polygon = (\<lambda>cs. Some (Polygon (cs @ [hd cs]) [])),
               orient = Some,
               new_MultiPolygon = (\<lambda>gs. Some (MultiPolygon gs)),
               unary_union = (\<lambda>g. Some (Polygon [] []))\<rparr>"
  let ?P = "Polygon [(0, 0), (0, 0), (0, 0), (0, 0), (0, 0)] []"
  let ?ps = "[makeBox \<lparr>x = 0, y = 0, z = 0\<rparr> 0 0, makeBox \<lparr>x = 0, y = 0, z = 0\<rparr> 0 0]"
  have b: "add_boundaries ?lib ?ps = Some [?P, ?P]"
    by (simp add: makeBox_def xy_def aecPoint_new_def)
  have m: "new_MultiPolygon ?lib [?P, ?P] = Some (MultiPolygon [?P, ?P])"
    by simp
  have u: "unary_union ?lib (MultiPolygon [?P, ?P]) = Some (Polygon [] [])"
    by simp
  from add_empty_polygon_not_None [OF b m u] b m u show ?thesis by blast
qed

subsection \<open>makePolygon\<close>

text \<open>
  Claim C8. For every origin, every nonzero radius and every \<open>sides\<close> value, \<open>makePolygon\<close> uses
  the radius \<open>abs radius\<close> and the side count \<open>n = max 3 (floor (abs sides))\<close>, and returns exactly
  \<open>n\<close> points, point \<open>i\<close> being
  \<open>(x origin + abs radius * cos (pi / 2 + i * 2 * pi / n), y origin + abs radius * sin (pi / 2 + i * 2 * pi / n))\<close>.
  The first vertex is straight above the centre, and the shoelace area of the loop is
  positive: it is counter-clockwise.
\<close>

theorem makePolygon_regular_polygon:
  assumes "radius \<noteq> 0"
  shows "makePolygon origin radius sides =
           Points (regular_polygon origin (abs radius) (nat (max 3 \<lfloor>abs sides\<rfloor>)))
       \<and> length (the_points (makePolygon origin radius sides)) = nat (max 3 \<lfloor>abs sides\<rfloor>)
       \<and> (\<forall>i < nat (max 3 \<lfloor>abs sides\<rfloor>).
            the_points (makePolygon origin radius sides) ! i =
              aecPoint_new
                (x origin + abs radius *
                   cos (pi / 2 + real i * (2 * pi / real (nat (max 3 \<lfloor>abs sides\<rfloor>)))))
                (y origin + abs radius *
                   sin (pi / 2 + real i * (2 * pi / real (nat (max 3 \<lfloor>abs sides\<rfloor>))))))
       \<and> hd (the_points (makePolygon origin radius sides)) =
             aecPoint_new (x origin) (y origin + abs radius)
       \<and> 0 < signed_area (the_points (makePolygon origin radius sides))"
proof -
  let ?n = "nat (max 3 \<lfloor>abs sides\<rfloor>)"
  have n3: "3 \<le> ?n" by simp
  have r: "0 < abs radius" using assms by simp
  have eq: "the_points (makePolygon origin radius sides) = regular_polygon origin (abs radius) ?n"
    by (simp add: makePolygon_regular [OF assms] side_count_def the_points_def)
  have "makePolygon origin radius sides = Points (regular_polygon origin (abs radius) ?n)"
    by (simp add: makePolygon_regular [OF assms] side_count_def)
  moreover have "length (regular_polygon origin (abs radius) ?n) = ?n"
    by (rule length_regular_polygon)
  moreover have "\<forall>i < ?n. regular_polygon origin (abs radius) ?n ! i =
              aecPoint_new (x origin + abs radius * cos (pi / 2 + real i * (2 * pi / real ?n)))
                           (y origin + abs radius * sin (pi / 2 + real i * (2 * pi / real ?n)))"
    by (simp add: regular_polygon_def regular_vertex_def)
  moreover have "hd (regular_polygon origin (abs radius) ?n) =
             aecPoint_new (x origin) (y origin + abs radius)"
    by (rule hd_regular_polygon) simp
  moreover have "0 < signed_area (regular_polygon origin (abs radius) ?n)"
    by (rule signed_area_regular_polygon_pos [OF n3 r])
  ultimately show ?thesis unfolding eq by blast
qed

theorem makePolygon_regular_polygon_witness:
  "(2 :: real) \<noteq> 0
   \<and> length (the_points (makePolygon \<lparr>x = 1, y = 1, z = 0\<rparr> 2 4)) = 4
   \<and> hd (the_points (makePolygon \<lparr>x = 1, y = 1, z = 0\<rparr> 2 4)) = \<lparr>x = 1, y = 3, z = 0\<rparr>
   \<and> the_points (makePolygon \<lparr>x = 1, y = 1, z = 0\<rparr> 2 4) ! 2 = \<lparr>x = 1, y = - 1, z = 0\<rparr>
   \<and> 0 < signed_area (the_points (makePolygon \<lparr>x = 1, y = 1, z = 0\<rparr> 2 4))"
proof -
  have h: "(2 :: real) \<noteq> 0" by simp
  have n: "nat (max 3 \<lfloor>abs (4 :: real)\<rfloor>) = 4" by simp
  note t = makePolygon_regular_polygon [OF h, of "\<lparr>x = 1, y = 1, z = 0\<rparr>" 4, unfolded n]
  have len: "length (the_points (makePolygon \<lparr>x = 1, y = 1, z = 0\<rparr> 2 4)) = 4"
    by (rule t [THEN conjunct2, THEN conjunct1])
  have "hd (the_points (makePolygon \<lparr>x = 1, y = 1, z = 0\<rparr> 2 4)) =
          aecPoint_new (x \<lparr>x = 1, y = 1, z = 0\<rparr>) (y \<lparr>x = 1, y = 1, z = 0\<rparr> + abs 2)"
    by (rule t [THEN conjunct2, THEN conjunct2, THEN conjunct2, THEN conjunct1])
  then have first: "hd (the_points (makePolygon \<lparr>x = 1, y = 1, z = 0\<rparr> 2 4)) = \<lparr>x = 1, y = 3, z = 0\<rparr>"
    by (simp add: aecPoint_new_def)
  have ang: "3 * pi / 2 = pi / 2 + pi" by simp
  have c: "cos (3 * pi / 2) = 0"
    unfolding ang by (simp only: cos_add cos_pi_half sin_pi_half cos_pi sin_pi)
  have s: "sin (3 * pi / 2) = - 1"
    unfolding ang by (simp only: sin_add cos_pi_half sin_pi_half cos_pi sin_pi)
  have "the_points (makePolygon \<lparr>x = 1, y = 1, z = 0\<rparr> 2 4) ! 2 =
          aecPoint_new (x \<lparr>x = 1, y = 1, z = 0\<rparr> + abs 2 * cos (pi / 2 + real 2 * (2 * pi / real 4)))
                       (y \<lparr>x = 1, y = 1, z = 0\<rparr> + abs 2 * sin (pi / 2 + real 2 * (2 * pi / real 4)))"
    using t [THEN conjunct2, THEN conjunct2, THEN conjunct1] by simp
  then have third: "the_points (makePolygon \<lparr>x = 1, y = 1, z = 0\<rparr> 2 4) ! 2 = \<lparr>x = 1, y = - 1, z = 0\<rparr>"
    by (simp add: aecPoint_new_def c s)
  have area: "0 < signed_area (the_points (makePolygon \<lparr>x = 1, y = 1, z = 0\<rparr> 2 4))"
    by (rule t [THEN conjunct2, THEN conjunct2, THEN conjunct2, THEN conjunct2])
  from h len first third area show ?thesis by blast
qed

subsection \<open>The invariant of returned loops\<close>




end
